theory Spec2Isabelle
  imports Complex_Main "HOL-Library.Log_Nat"
begin

section \<open>The computations of the fuzzy-concepts explainer (\<open>set.py\<close>)\<close>

text \<open>
  \<open>set.py\<close> is one script: two rendering procedures whose only logic is four inline
  computations on widget values. Each is embedded here as a function of the widget values
  it reads, named as the specification names it (\<open>score\<close>, \<open>validate\<close>,
  \<open>partition\<close>, \<open>derive\<close>); the script variable each one computes is given beside
  it.

  Numbers: the script computes on Python floats, which are IEEE 754 binary64 values.
  The composition arithmetic (hesitation and refusal) is embedded on a model of binary64
  with its rounding, given below. The membership formula is embedded on \<^typ>\<open>real\<close>,
  the type the specification gives its argument, and its properties are those of exact
  arithmetic. The validator and the partitioner only compare floats and take minima,
  which are exact operations, so \<^typ>\<open>real\<close> holds their values as they are.
\<close>

subsection \<open>Membership in "tall people" (lines 50 to 57, variable \<open>membership\<close>)\<close>

definition score :: "real \<Rightarrow> real" where
  "score height =
     (if height < 160 then 0.0
      else if height < 180 then (height - 160) / 20.0 * 0.8
      else if height < 190 then 0.8 + ((height - 180) / 10.0 * 0.2)
      else 1.0)"

text \<open>
  The reference definition, from the words of the specification (section 4.1): four
  segments, each with both of its bounds written out.
\<close>

definition score_spec :: "real \<Rightarrow> real" where
  "score_spec x =
     (if x < 160 then 0.0
      else if 160 \<le> x \<and> x < 180 then ((x - 160) / 20) * 0.8
      else if 180 \<le> x \<and> x < 190 then 0.8 + ((x - 180) / 10) * 0.2
      else if x \<ge> 190 then 1.0
      else - 1)"

subsection \<open>The golden rule of fuzzy graphs (lines 77 to 91, variable \<open>violations\<close>)\<close>

text \<open>
  The graph of the script is fixed: vertices A, B and C, edges A-B, B-C and A-C, their six
  degrees read from six sliders. A violation is appended as a message, an f-string built
  from the name of the edge, its strength and the smaller of the two existence degrees;
  the record keeps these three values, which determine the message.
\<close>

record violation =
  edge_name :: string
  strength :: real
  bound :: real

definition validate ::
  "real \<Rightarrow> real \<Rightarrow> real \<Rightarrow> real \<Rightarrow> real \<Rightarrow> real \<Rightarrow> violation list" where
  "validate sigma_a sigma_b sigma_c mu_ab mu_bc mu_ac =
     (let violations = [];
          violations =
            (if mu_ab > min sigma_a sigma_b
             then violations @
               [\<lparr>edge_name = ''A-B'', strength = mu_ab, bound = min sigma_a sigma_b\<rparr>]
             else violations);
          violations =
            (if mu_bc > min sigma_b sigma_c
             then violations @
               [\<lparr>edge_name = ''B-C'', strength = mu_bc, bound = min sigma_b sigma_c\<rparr>]
             else violations);
          violations =
            (if mu_ac > min sigma_a sigma_c
             then violations @
               [\<lparr>edge_name = ''A-C'', strength = mu_ac, bound = min sigma_a sigma_c\<rparr>]
             else violations)
      in violations)"

text \<open>
  The edges of the script in the order it checks them, each with its strength and the
  bound it is compared with: the input edge sequence of the specification's validator.
\<close>

definition edge_checks ::
  "real \<Rightarrow> real \<Rightarrow> real \<Rightarrow> real \<Rightarrow> real \<Rightarrow> real \<Rightarrow> violation list" where
  "edge_checks sigma_a sigma_b sigma_c mu_ab mu_bc mu_ac =
     [\<lparr>edge_name = ''A-B'', strength = mu_ab, bound = min sigma_a sigma_b\<rparr>,
      \<lparr>edge_name = ''B-C'', strength = mu_bc, bound = min sigma_b sigma_c\<rparr>,
      \<lparr>edge_name = ''A-C'', strength = mu_ac, bound = min sigma_a sigma_c\<rparr>]"

subsection \<open>Cutting the spanning tree at a threshold (lines 227 to 242, variable \<open>mst_dot\<close>)\<close>

text \<open>
  The script draws into a \<open>graphviz.Graph\<close>, whose body is the sequence of statements
  added to it. \<open>edge\<close> appends an edge statement, \<open>node\<close> a node statement. The label
  of an edge is its weight printed with two decimals; the statement keeps the weight.
  The attribute statement that styles the nodes (line 228) has no part in the
  computation and is left out.
\<close>

datatype stmt = Edge_stmt string string real | Node_stmt string

type_synonym graph = "stmt list"

definition edge :: "graph \<Rightarrow> string \<Rightarrow> string \<Rightarrow> real \<Rightarrow> graph" where
  "edge dot u v label = dot @ [Edge_stmt u v label]"

definition node :: "graph \<Rightarrow> string \<Rightarrow> graph" where
  "node dot u = dot @ [Node_stmt u]"

text \<open>
  The dictionary \<open>edges\<close> is iterated in insertion order: an association list of
  \<open>((u, v), weight)\<close>.
\<close>

type_synonym weighted_edge = "(string \<times> string) \<times> real"

definition edges :: "weighted_edge list" where
  "edges =
     [((''G9'', ''G4''), 0.87), ((''G7'', ''G2''), 0.83), ((''G6'', ''G1''), 0.82),
      ((''G7'', ''G3''), 0.81), ((''G7'', ''G8''), 0.74), ((''G10'', ''G5''), 0.76),
      ((''G3'', ''G9''), 0.64), ((''G8'', ''G10''), 0.69), ((''G1'', ''G4''), 0.64)]"

text \<open>The loop of lines 236 to 242, on the graph built so far.\<close>

fun cut_loop :: "weighted_edge list \<Rightarrow> real \<Rightarrow> graph \<Rightarrow> graph" where
  "cut_loop [] threshold mst_dot = mst_dot"
| "cut_loop (((u, v), weight) # rest) threshold mst_dot =
     cut_loop rest threshold
       (if weight \<ge> threshold then edge mst_dot u v weight
        else node (node mst_dot u) v)"

text \<open>
  What the finished graph shows. Its edges are its edge statements. Its nodes are those of
  its node statements and, as in every DOT graph, the endpoints of its edge statements.
\<close>

fun stmt_edges :: "stmt \<Rightarrow> weighted_edge list" where
  "stmt_edges (Edge_stmt u v w) = [((u, v), w)]"
| "stmt_edges (Node_stmt u) = []"

fun stmt_nodes :: "stmt \<Rightarrow> string set" where
  "stmt_nodes (Edge_stmt u v w) = {u, v}"
| "stmt_nodes (Node_stmt u) = {u}"

definition graph_edges :: "graph \<Rightarrow> weighted_edge list" where
  "graph_edges dot = concat (map stmt_edges dot)"

definition graph_nodes :: "graph \<Rightarrow> string set" where
  "graph_nodes dot = \<Union> (set (map stmt_nodes dot))"

text \<open>
  The partitioner of the specification is the loop run on a new graph: the kept edges are
  the edges drawn, the cut edges are the edges of the input that are not drawn, the
  nodes are the nodes of the graph.
\<close>

definition partition_edges ::
  "weighted_edge list \<Rightarrow> real \<Rightarrow> weighted_edge list \<times> weighted_edge list \<times> string set" where
  "partition_edges es threshold =
     (let mst_dot = cut_loop es threshold [];
          kept = graph_edges mst_dot
      in (kept, filter (\<lambda>e. e \<notin> set kept) es, graph_nodes mst_dot))"

definition kept_of :: "weighted_edge list \<Rightarrow> real \<Rightarrow> weighted_edge list" where
  "kept_of es threshold = fst (partition_edges es threshold)"

definition cut_of :: "weighted_edge list \<Rightarrow> real \<Rightarrow> weighted_edge list" where
  "cut_of es threshold = fst (snd (partition_edges es threshold))"

definition nodes_of :: "weighted_edge list \<Rightarrow> real \<Rightarrow> string set" where
  "nodes_of es threshold = snd (snd (partition_edges es threshold))"

text \<open>The endpoints of a list of edges, and the statements one pass of the loop adds.\<close>

definition endpoints :: "weighted_edge list \<Rightarrow> string set" where
  "endpoints es = \<Union> (set (map (\<lambda>((u, v), w). {u, v}) es))"

definition emit :: "real \<Rightarrow> weighted_edge \<Rightarrow> stmt list" where
  "emit threshold e =
     (case e of ((u, v), weight) \<Rightarrow>
        if weight \<ge> threshold then [Edge_stmt u v weight] else [Node_stmt u, Node_stmt v])"

subsection \<open>Python floats\<close>

text \<open>
  A float is a finite binary64 value, an infinity or a NaN. A finite value is held as the
  rational it denotes; the two zeros are not told apart (they compare equal, and no
  operation used here separates them).

  \<open>rnd\<close> rounds a rational to the nearest binary64 value, ties to the even significand:
  the quantum of \<open>x\<close> is the exponent of the last place of its 53-bit significand, not
  below that of the subnormals, \<open>- 1074\<close>; a magnitude that rounds to \<open>2 ^ 1024\<close> or more
  becomes an infinity. \<open>lit\<close> is the float a decimal literal denotes, \<open>fsub\<close> is the
  subtraction of floats.
\<close>

datatype double = Finite rat | PInf | NInf | NaN

definition pow2 :: "int \<Rightarrow> rat" where
  "pow2 e = 2 powi e"

definition floor_log2 :: "rat \<Rightarrow> int" where
  "floor_log2 x =
     (let (p, q) = quotient_of x; l = bitlen p - bitlen q
      in if pow2 l \<le> x then l else l - 1)"

definition round_half_even :: "rat \<Rightarrow> int" where
  "round_half_even y =
     (let f = \<lfloor>y\<rfloor>; r = y - of_int f
      in if r < 1 / 2 then f else if 1 / 2 < r then f + 1
         else if even f then f else f + 1)"

definition quantum :: "rat \<Rightarrow> int" where
  "quantum x = max (floor_log2 \<bar>x\<bar> - 52) (- 1074)"

definition rnd :: "rat \<Rightarrow> double" where
  "rnd x =
     (if x = 0 then Finite 0
      else let e = quantum x;
               y = of_int (round_half_even (\<bar>x\<bar> / pow2 e)) * pow2 e
           in if 2 ^ 1024 \<le> y then (if 0 < x then PInf else NInf)
              else Finite (if 0 < x then y else - y))"

definition is_double :: "rat \<Rightarrow> bool" where
  "is_double x =
     (x = 0 \<or>
      (rat_of_int \<lfloor>\<bar>x\<bar> / pow2 (quantum x)\<rfloor> = \<bar>x\<bar> / pow2 (quantum x)
       \<and> \<bar>x\<bar> < 2 ^ 1024))"

definition lit :: "rat \<Rightarrow> double" where
  "lit x = rnd x"

fun fsub :: "double \<Rightarrow> double \<Rightarrow> double" where
  "fsub (Finite x) (Finite y) = rnd (x - y)"
| "fsub NaN _ = NaN"
| "fsub _ NaN = NaN"
| "fsub PInf PInf = NaN"
| "fsub NInf NInf = NaN"
| "fsub PInf _ = PInf"
| "fsub NInf _ = NInf"
| "fsub (Finite x) PInf = NInf"
| "fsub (Finite x) NInf = PInf"

subsection \<open>Hesitation and refusal (lines 173 and 187)\<close>

text \<open>
  Both are subtractions from the float \<open>1.0\<close>, left to right, with no check and no
  \<open>raise\<close>. The result of \<open>derive\<close> is a sum so that a claim about an error can be
  stated: the script always yields the value. The error is the one the specification
  names; the script defines none.
\<close>

datatype error = InvalidCompositionError

definition hesitation :: "double \<Rightarrow> double \<Rightarrow> double" where
  "hesitation support_ifs oppose_ifs = fsub (fsub (Finite 1) support_ifs) oppose_ifs"

definition derive :: "double \<Rightarrow> double \<Rightarrow> double \<Rightarrow> error + double" where
  "derive support_pfs oppose_pfs abstain_pfs =
     Inr (fsub (fsub (fsub (Finite 1) support_pfs) oppose_pfs) abstain_pfs)"

subsection \<open>The sliders of the two tabs (lines 170 to 173 and 182 to 187)\<close>

text \<open>
  \<open>st.slider label min_value max_value value\<close> is a widget of the Streamlit library.
  It returns its fourth argument, \<open>value\<close>, as long as the user has not moved it, and the
  position the user chose once they have; a \<open>value\<close> outside the two bounds is not
  refused, the widget takes it into its range. The user's part is the last argument
  here: \<open>None\<close> for a slider left alone, \<open>Some v\<close> for one moved to \<open>v\<close>.
\<close>

definition st_slider :: "double \<Rightarrow> double \<Rightarrow> double \<Rightarrow> double option \<Rightarrow> double" where
  "st_slider min_value max_value value moved =
     (case moved of None \<Rightarrow> value | Some v \<Rightarrow> v)"

definition oppose_ifs_max :: "double \<Rightarrow> double" where
  "oppose_ifs_max support_ifs = fsub (Finite 1) support_ifs"

definition oppose_pfs_max :: "double \<Rightarrow> double" where
  "oppose_pfs_max support_pfs = fsub (Finite 1) support_pfs"

definition abstain_pfs_max :: "double \<Rightarrow> double \<Rightarrow> double" where
  "abstain_pfs_max support_pfs oppose_pfs = fsub (fsub (Finite 1) support_pfs) oppose_pfs"

definition ifs_tab :: "double option \<Rightarrow> double option \<Rightarrow> double" where
  "ifs_tab moved_s moved_o =
     (let support_ifs = st_slider (Finite 0) (Finite 1) (lit 0.6) moved_s;
          oppose_ifs = st_slider (Finite 0) (oppose_ifs_max support_ifs) (lit 0.2) moved_o
      in hesitation support_ifs oppose_ifs)"

definition pfs_tab :: "double option \<Rightarrow> double option \<Rightarrow> double option \<Rightarrow> error + double" where
  "pfs_tab moved_s moved_o moved_a =
     (let support_pfs = st_slider (Finite 0) (Finite 1) (lit 0.5) moved_s;
          oppose_pfs = st_slider (Finite 0) (oppose_pfs_max support_pfs) (lit 0.2) moved_o;
          abstain_pfs =
            st_slider (Finite 0) (abstain_pfs_max support_pfs oppose_pfs) (lit 0.1) moved_a
      in derive support_pfs oppose_pfs abstain_pfs)"

subsection \<open>The script as a run over its variables\<close>

text \<open>
  The script is run again from its first line at every interaction. Here each of the four
  computations is written once more as the script has it, as assignments to its
  variables: the record holds the variables, with whatever values an earlier run left in
  them, and a block returns the record it leaves. The widget values stay arguments.
  \<open>violations = []\<close> (line 85) and \<open>graphviz.Graph(...)\<close> (line 227) are the two
  assignments that start an accumulator anew.
\<close>

record vars =
  membership :: real
  violations :: "violation list"
  refusal :: double
  mst_dot :: graph

definition run_score :: "real \<Rightarrow> vars \<Rightarrow> vars" where
  "run_score height s =
     (if height < 160 then s\<lparr>membership := 0.0\<rparr>
      else if height < 180 then s\<lparr>membership := (height - 160) / 20.0 * 0.8\<rparr>
      else if height < 190 then s\<lparr>membership := 0.8 + ((height - 180) / 10.0 * 0.2)\<rparr>
      else s\<lparr>membership := 1.0\<rparr>)"

definition append_violation :: "violation \<Rightarrow> vars \<Rightarrow> vars" where
  "append_violation v s = s\<lparr>violations := violations s @ [v]\<rparr>"

definition run_validate ::
  "real \<Rightarrow> real \<Rightarrow> real \<Rightarrow> real \<Rightarrow> real \<Rightarrow> real \<Rightarrow> vars \<Rightarrow> vars" where
  "run_validate sigma_a sigma_b sigma_c mu_ab mu_bc mu_ac s =
     (let s = s\<lparr>violations := []\<rparr>;
          s = (if mu_ab > min sigma_a sigma_b
               then append_violation
                 \<lparr>edge_name = ''A-B'', strength = mu_ab, bound = min sigma_a sigma_b\<rparr> s
               else s);
          s = (if mu_bc > min sigma_b sigma_c
               then append_violation
                 \<lparr>edge_name = ''B-C'', strength = mu_bc, bound = min sigma_b sigma_c\<rparr> s
               else s);
          s = (if mu_ac > min sigma_a sigma_c
               then append_violation
                 \<lparr>edge_name = ''A-C'', strength = mu_ac, bound = min sigma_a sigma_c\<rparr> s
               else s)
      in s)"

fun run_cut_loop :: "weighted_edge list \<Rightarrow> real \<Rightarrow> vars \<Rightarrow> vars" where
  "run_cut_loop [] threshold s = s"
| "run_cut_loop (((u, v), weight) # rest) threshold s =
     run_cut_loop rest threshold
       (if weight \<ge> threshold then s\<lparr>mst_dot := edge (mst_dot s) u v weight\<rparr>
        else s\<lparr>mst_dot := node (node (mst_dot s) u) v\<rparr>)"

definition run_partition :: "weighted_edge list \<Rightarrow> real \<Rightarrow> vars \<Rightarrow> vars" where
  "run_partition es threshold s = run_cut_loop es threshold (s\<lparr>mst_dot := []\<rparr>)"

definition run_derive :: "double \<Rightarrow> double \<Rightarrow> double \<Rightarrow> vars \<Rightarrow> vars" where
  "run_derive support_pfs oppose_pfs abstain_pfs s =
     s\<lparr>refusal := fsub (fsub (fsub (Finite 1) support_pfs) oppose_pfs) abstain_pfs\<rparr>"

section \<open>Properties\<close>

subsection \<open>Membership scorer\<close>

text \<open>
  C3. For every real input, \<open>score\<close> equals the three-segment piecewise-linear reference
  definition of the specification, and the three boundary points are exact:
  \<open>score 160 = 0\<close>, \<open>score 180 = 0.8\<close>, \<open>score 190 = 1\<close>.
\<close>

theorem score_refines_spec:
  "score x = score_spec x \<and> score 160 = 0.0 \<and> score 180 = 0.8 \<and> score 190 = 1.0"
  by (simp add: score_def score_spec_def)

lemma score_mono: "x \<le> y \<Longrightarrow> score x \<le> score y"
  unfolding score_def by (auto simp: field_simps)

lemma score_range: "0 \<le> score x \<and> score x \<le> 1"
  unfolding score_def by (auto simp: field_simps)

text \<open>
  C7. \<open>score\<close> is monotonically non-decreasing over the whole real line, its value lies
  in \<open>[0, 1]\<close> at every input, it is \<open>0\<close> everywhere below 160 and \<open>1\<close> everywhere from
  190 on.
\<close>

theorem score_monotone_bounded:
  "(x \<le> y \<longrightarrow> score x \<le> score y)
   \<and> 0 \<le> score z \<and> score z \<le> 1
   \<and> (lo < 160 \<longrightarrow> score lo = 0.0)
   \<and> (hi \<ge> 190 \<longrightarrow> score hi = 1.0)"
  using score_mono [of x y] score_range [of z] by (simp add: score_def)

theorem score_monotone_bounded_witness:
  "(170::real) \<le> 185 \<and> score 170 \<le> score 185 \<and> score 170 = 0.4 \<and> score 185 = 0.9
   \<and> (150::real) < 160 \<and> score 150 = 0.0 \<and> (200::real) \<ge> 190 \<and> score 200 = 1.0"
  using score_monotone_bounded [of 170 185 170 150 200]
  by (simp add: score_def)

subsection \<open>Fuzzy graph validator\<close>

text \<open>
  C4. When every edge's strength is at most the smaller existence degree of its two
  endpoints, \<open>validate\<close> returns the empty sequence; and in general it returns, in the
  order of the edges (A-B, B-C, A-C), exactly the edges whose strength exceeds that
  bound. The graphs are those the script has: any six degrees on its three vertices and
  three edges.
\<close>

theorem validate_valid_empty:
  "(mu_ab \<le> min sigma_a sigma_b \<and> mu_bc \<le> min sigma_b sigma_c \<and> mu_ac \<le> min sigma_a sigma_c
      \<longrightarrow> validate sigma_a sigma_b sigma_c mu_ab mu_bc mu_ac = [])
   \<and> validate sigma_a sigma_b sigma_c mu_ab mu_bc mu_ac =
       filter (\<lambda>v. strength v > bound v) (edge_checks sigma_a sigma_b sigma_c mu_ab mu_bc mu_ac)"
  by (auto simp: validate_def edge_checks_def Let_def)

theorem validate_valid_empty_witness:
  "(0.7::real) \<le> min 0.9 0.8 \<and> (0.6::real) \<le> min 0.8 1.0 \<and> (0.5::real) \<le> min 0.9 1.0
   \<and> validate 0.9 0.8 1.0 0.7 0.6 0.5 = []
   \<and> map edge_name (validate 0.5 0.5 0.5 0.7 0.2 0.6) = [''A-B'', ''A-C'']"
  using validate_valid_empty [of "0.7" "0.9" "0.8" "0.6" "1.0" "0.5"]
    validate_valid_empty [of "0.7" "0.5" "0.5" "0.2" "0.5" "0.6"]
  by (simp add: edge_checks_def)

subsection \<open>Threshold partitioner\<close>

lemma cut_loop_append: "cut_loop es t dot = dot @ concat (map (emit t) es)"
  by (induction es t dot rule: cut_loop.induct) (simp_all add: emit_def edge_def node_def)

lemma graph_edges_cut_loop: "graph_edges (cut_loop es t []) = filter (\<lambda>e. snd e \<ge> t) es"
  by (induction es) (auto simp: cut_loop_append graph_edges_def emit_def)

lemma graph_nodes_emit: "graph_nodes (emit t ((u, v), w)) = {u, v}"
  by (auto simp: graph_nodes_def emit_def)

lemma graph_nodes_append: "graph_nodes (a @ b) = graph_nodes a \<union> graph_nodes b"
  by (simp add: graph_nodes_def)

lemma graph_nodes_cut_loop: "graph_nodes (cut_loop es t []) = endpoints es"
proof -
  have "graph_nodes (concat (map (emit t) es)) = endpoints es"
  proof (induction es)
    case Nil
    show ?case by (simp add: graph_nodes_def endpoints_def)
  next
    case (Cons e es)
    obtain u v w where e: "e = ((u, v), w)" by (cases e) auto
    have "endpoints (e # es) = {u, v} \<union> endpoints es"
      by (simp add: endpoints_def e)
    with Cons show ?case
      by (simp add: graph_nodes_append graph_nodes_emit e)
  qed
  then show ?thesis by (simp add: cut_loop_append)
qed

lemma partition_edges_eq:
  "partition_edges es t =
     (filter (\<lambda>e. snd e \<ge> t) es, filter (\<lambda>e. \<not> snd e \<ge> t) es, endpoints es)"
proof -
  have "filter (\<lambda>e. e \<notin> set (filter (\<lambda>e. snd e \<ge> t) es)) es =
        filter (\<lambda>e. \<not> snd e \<ge> t) es"
    by (rule filter_cong) auto
  then show ?thesis
    by (simp add: partition_edges_def graph_edges_cut_loop graph_nodes_cut_loop)
qed

lemma kept_of_eq: "kept_of es t = filter (\<lambda>e. snd e \<ge> t) es"
  by (simp add: kept_of_def partition_edges_eq)

lemma cut_of_eq: "cut_of es t = filter (\<lambda>e. \<not> snd e \<ge> t) es"
  by (simp add: cut_of_def partition_edges_eq)

lemma nodes_of_eq: "nodes_of es t = endpoints es"
  by (simp add: nodes_of_def partition_edges_eq)

text \<open>
  C2. For every edge list and every real threshold, an edge of the list is kept if and
  only if its weight is at least the threshold (the boundary included) and cut
  otherwise; kept and cut edges keep the order of the list, are disjoint, and together
  are the edges of the list. For the edges (G9, G4, 0.87), (G1, G4, 0.64) and threshold
  0.65 the first is kept, the second cut, and the nodes are G9, G4 and G1.
\<close>

theorem partition_edges_by_threshold:
  "(\<forall>e \<in> set es. (e \<in> set (kept_of es t) \<longleftrightarrow> snd e \<ge> t)
                  \<and> (e \<in> set (cut_of es t) \<longleftrightarrow> \<not> snd e \<ge> t))
   \<and> kept_of es t = filter (\<lambda>e. snd e \<ge> t) es
   \<and> cut_of es t = filter (\<lambda>e. snd e < t) es
   \<and> set (kept_of es t) \<inter> set (cut_of es t) = {}
   \<and> set (kept_of es t) \<union> set (cut_of es t) = set es
   \<and> partition_edges [((''G9'', ''G4''), 0.87), ((''G1'', ''G4''), 0.64)] 0.65 =
       ([((''G9'', ''G4''), 0.87)], [((''G1'', ''G4''), 0.64)], {''G9'', ''G4'', ''G1''})"
proof -
  have 1: "kept_of es t = filter (\<lambda>e. snd e \<ge> t) es"
    by (rule kept_of_eq)
  have 2: "cut_of es t = filter (\<lambda>e. snd e < t) es"
    by (simp add: cut_of_eq not_le)
  have 3: "partition_edges [((''G9'', ''G4''), 0.87), ((''G1'', ''G4''), 0.64)] 0.65 =
       ([((''G9'', ''G4''), 0.87)], [((''G1'', ''G4''), 0.64)], {''G9'', ''G4'', ''G1''})"
    by (auto simp: partition_edges_eq endpoints_def)
  from 1 2 have 4: "set (kept_of es t) \<inter> set (cut_of es t) = {}"
    by auto
  from 1 2 have 5: "set (kept_of es t) \<union> set (cut_of es t) = set es"
    by auto
  from 1 2 have 6: "\<forall>e \<in> set es. (e \<in> set (kept_of es t) \<longleftrightarrow> snd e \<ge> t)
      \<and> (e \<in> set (cut_of es t) \<longleftrightarrow> \<not> snd e \<ge> t)"
    by auto
  from 1 2 3 4 5 6 show ?thesis by blast
qed

theorem partition_edges_by_threshold_witness:
  "((''G9'', ''G4''), 0.87) \<in> set (kept_of edges 0.65)
   \<and> ((''G1'', ''G4''), 0.64) \<in> set (cut_of edges 0.65)
   \<and> ((''G1'', ''G4''), 0.64) \<notin> set (kept_of edges 0.65)
   \<and> length (kept_of edges 0.65) = 7 \<and> length (cut_of edges 0.65) = 2
   \<and> ((''G1'', ''G4''), 0.64) \<in> set (kept_of edges 0.64)"
  using partition_edges_by_threshold [of edges "0.65"]
    partition_edges_by_threshold [of edges "0.64"]
  by (simp add: edges_def)

text \<open>
  C8. For every edge list and every real threshold, the nodes returned are the
  endpoints of all the edges of the list, kept and cut alike: the node set is the same
  at every threshold, and both endpoints of every edge are in it, also when the edge is
  cut.
\<close>

theorem nodes_all_endpoints:
  "nodes_of es t = endpoints es
   \<and> nodes_of es t = nodes_of es t'
   \<and> (((u, v), w) \<in> set es \<longrightarrow> u \<in> nodes_of es t \<and> v \<in> nodes_of es t)"
proof -
  have "((u, v), w) \<in> set es \<Longrightarrow> u \<in> endpoints es \<and> v \<in> endpoints es"
    by (force simp: endpoints_def)
  then show ?thesis by (simp add: nodes_of_eq)
qed

theorem nodes_all_endpoints_witness:
  "kept_of edges 0.9 = []
   \<and> ((''G6'', ''G1''), 0.82) \<in> set edges
   \<and> ''G6'' \<in> nodes_of edges 0.9 \<and> ''G1'' \<in> nodes_of edges 0.9
   \<and> nodes_of edges 0.9 = nodes_of edges 0.5"
proof -
  have k: "kept_of edges 0.9 = []"
    by (simp add: edges_def kept_of_eq)
  have m: "((''G6'', ''G1''), 0.82) \<in> set edges"
    by (simp add: edges_def)
  from m k nodes_all_endpoints [of edges "0.9" "0.5" "''G6''" "''G1''" "0.82"]
  show ?thesis by blast
qed

subsection \<open>Rounding to binary64\<close>

text \<open>
  \<open>floor_log2\<close> is the binary exponent of a positive rational; hence the quantum of a
  value is determined by the binade it lies in, a value within half a quantum of
  \<open>m\<close> quanta rounds to \<open>m\<close> quanta, and a binary64 value rounds to itself.
\<close>

lemma pow2_pos: "0 < pow2 e"
  by (simp add: pow2_def)

lemma pow2_diff: "pow2 (a - b) = pow2 a / pow2 b"
  by (simp add: pow2_def power_int_diff)

lemma pow2_less_imp: "pow2 a < pow2 b \<Longrightarrow> a < b"
proof (rule ccontr)
  assume "pow2 a < pow2 b" and "\<not> a < b"
  then have "b \<le> a" by simp
  then have "pow2 b \<le> pow2 a"
    unfolding pow2_def by (intro power_int_increasing) simp_all
  with \<open>pow2 a < pow2 b\<close> show False by simp
qed

lemma bitlen_pow2_bounds:
  assumes "0 < p"
  shows "pow2 (bitlen p - 1) \<le> of_int p" and "(of_int p :: rat) < pow2 (bitlen p)"
proof -
  from bitlen_bounds [OF assms]
  have a: "2 ^ nat (bitlen p - 1) \<le> p" and b: "p < 2 ^ nat (bitlen p)" by simp_all
  have ge1: "1 \<le> bitlen p" using assms by (auto simp: bitlen_alt_def)
  from a have "(of_int (2 ^ nat (bitlen p - 1)) :: rat) \<le> of_int p"
    by (simp only: of_int_le_iff)
  then show "pow2 (bitlen p - 1) \<le> of_int p"
    using ge1 by (simp add: pow2_def power_int_def)
  from b have "(of_int p :: rat) < of_int (2 ^ nat (bitlen p))"
    by (simp only: of_int_less_iff)
  then show "(of_int p :: rat) < pow2 (bitlen p)"
    using ge1 by (simp add: pow2_def power_int_def)
qed

lemma floor_log2_bounds:
  assumes "0 < x"
  shows "pow2 (floor_log2 x) \<le> x \<and> x < pow2 (floor_log2 x + 1)"
proof -
  obtain p q where pq: "quotient_of x = (p, q)" by (cases "quotient_of x")
  then have q: "0 < q" by (rule quotient_of_denom_pos)
  from pq have x: "x = of_int p / of_int q" by (rule quotient_of_div)
  with assms q have p: "0 < p" by (simp add: zero_less_divide_iff)
  define d where "d = bitlen p - bitlen q"
  note P = bitlen_pow2_bounds [OF p] and Q = bitlen_pow2_bounds [OF q]
  have qpos: "(0::rat) < of_int q" using q by simp
  have "x < pow2 (bitlen p) / pow2 (bitlen q - 1)"
  proof -
    have "x < pow2 (bitlen p) / of_int q"
      unfolding x using P(2) qpos by (simp add: divide_strict_right_mono)
    also have "\<dots> \<le> pow2 (bitlen p) / pow2 (bitlen q - 1)"
      using Q(1) pow2_pos [of "bitlen p"] pow2_pos [of "bitlen q - 1"]
      by (simp add: frac_le)
    finally show ?thesis .
  qed
  also have "\<dots> = pow2 (bitlen p - (bitlen q - 1))"
    by (simp only: pow2_diff)
  also have "bitlen p - (bitlen q - 1) = d + 1"
    by (simp add: d_def)
  finally have up: "x < pow2 (d + 1)" .
  have "d - 1 = bitlen p - 1 - bitlen q"
    by (simp add: d_def)
  then have "pow2 (d - 1) = pow2 (bitlen p - 1) / pow2 (bitlen q)"
    by (simp only: pow2_diff)
  also have "\<dots> \<le> of_int p / pow2 (bitlen q)"
    using P(1) pow2_pos [of "bitlen q"] by (simp add: divide_right_mono)
  also have "\<dots> \<le> x"
    unfolding x using Q(2) qpos p by (simp add: frac_le)
  finally have lo: "pow2 (d - 1) \<le> x" .
  have fl: "floor_log2 x = (if pow2 d \<le> x then d else d - 1)"
    by (simp add: floor_log2_def pq d_def Let_def)
  show ?thesis
  proof (cases "pow2 d \<le> x")
    case True
    with up fl show ?thesis by simp
  next
    case False
    with lo fl show ?thesis by simp
  qed
qed

lemma floor_log2_eq:
  assumes "pow2 l \<le> x" and "x < pow2 (l + 1)"
  shows "floor_log2 x = l"
proof -
  have "0 < x" using assms(1) pow2_pos [of l] by simp
  from floor_log2_bounds [OF this]
  have a: "pow2 (floor_log2 x) \<le> x" and b: "x < pow2 (floor_log2 x + 1)" by simp_all
  from a assms(2) have "pow2 (floor_log2 x) < pow2 (l + 1)" by simp
  then have 1: "floor_log2 x < l + 1" by (rule pow2_less_imp)
  from assms(1) b have "pow2 l < pow2 (floor_log2 x + 1)" by simp
  then have 2: "l < floor_log2 x + 1" by (rule pow2_less_imp)
  from 1 2 show ?thesis by simp
qed


lemma round_half_even_near:
  assumes "\<bar>y - rat_of_int m\<bar> < 1 / 2"
  shows "round_half_even y = m"
proof -
  have f: "rat_of_int \<lfloor>y\<rfloor> \<le> y" "y < rat_of_int \<lfloor>y\<rfloor> + 1"
    by linarith+
  from assms f have "rat_of_int \<lfloor>y\<rfloor> < rat_of_int m + 1" "rat_of_int m - 1 < rat_of_int \<lfloor>y\<rfloor> + 1"
    by linarith+
  then have "\<lfloor>y\<rfloor> < m + 1" "m - 1 < \<lfloor>y\<rfloor> + 1"
    by (simp_all only: flip: of_int_less_iff [where 'a = rat])
  then consider "\<lfloor>y\<rfloor> = m" | "\<lfloor>y\<rfloor> = m - 1" by linarith
  then show ?thesis
  proof cases
    case 1
    with assms f show ?thesis by (auto simp: round_half_even_def Let_def)
  next
    case 2
    with assms f show ?thesis by (auto simp: round_half_even_def Let_def)
  qed
qed

lemma round_half_even_of_int: "round_half_even (rat_of_int k) = k"
  by (rule round_half_even_near) simp

lemma quantum_eq:
  assumes "pow2 l \<le> \<bar>x\<bar>" and "\<bar>x\<bar> < pow2 (l + 1)"
  shows "quantum x = max (l - 52) (- 1074)"
  by (simp add: quantum_def floor_log2_eq [OF assms])

lemma rnd_near:
  assumes "pow2 l \<le> \<bar>x\<bar>" and "\<bar>x\<bar> < pow2 (l + 1)"
    and "\<bar>\<bar>x\<bar> / pow2 (max (l - 52) (- 1074)) - rat_of_int m\<bar> < 1 / 2"
    and "rat_of_int m * pow2 (max (l - 52) (- 1074)) < 2 ^ 1024"
  shows "rnd x = Finite (sgn x * (rat_of_int m * pow2 (max (l - 52) (- 1074))))"
proof -
  have "x \<noteq> 0" using assms(1) pow2_pos [of l] by auto
  moreover have "round_half_even (\<bar>x\<bar> / pow2 (quantum x)) = m"
    using assms(3) by (simp add: quantum_eq [OF assms(1,2)] round_half_even_near)
  ultimately show ?thesis
    using assms(4) by (auto simp: rnd_def Let_def quantum_eq [OF assms(1,2)] sgn_if)
qed

lemma is_doubleI:
  assumes "pow2 l \<le> \<bar>x\<bar>" and "\<bar>x\<bar> < pow2 (l + 1)"
    and "\<bar>x\<bar> / pow2 (max (l - 52) (- 1074)) = rat_of_int m"
    and "\<bar>x\<bar> < 2 ^ 1024"
  shows "is_double x"
  using assms(3,4) by (simp add: is_double_def quantum_eq [OF assms(1,2)])

lemma rnd_exact:
  assumes "is_double x"
  shows "rnd x = Finite x"
proof (cases "x = 0")
  case True
  then show ?thesis by (simp add: rnd_def)
next
  case False
  define k where "k = \<lfloor>\<bar>x\<bar> / pow2 (quantum x)\<rfloor>"
  from assms False have k: "rat_of_int k = \<bar>x\<bar> / pow2 (quantum x)" and b: "\<bar>x\<bar> < 2 ^ 1024"
    by (simp_all add: is_double_def k_def)
  have r: "round_half_even (\<bar>x\<bar> / pow2 (quantum x)) = k"
    by (simp only: k [symmetric] round_half_even_of_int)
  have "rat_of_int k * pow2 (quantum x) = \<bar>x\<bar>"
    using pow2_pos [of "quantum x"] by (simp add: k)
  with False b r show ?thesis
    by (auto simp: rnd_def Let_def)
qed

subsection \<open>The floats of the examples\<close>

text \<open>
  The floats that the decimal literals of the script and of the examples denote
  (\<open>0.1\<close> is \<open>3602879701896397 / 2 ^ 55\<close>, and so on), and the subtractions of the
  examples. Every difference below is itself a binary64 value, so no subtraction of the
  examples rounds; the last lemma is a subtraction that does.
\<close>

lemmas ev = pow2_def power_int_minus_divide

lemma lit_00: "lit 0.0 = Finite 0"
  by (simp add: lit_def rnd_def)

lemma lit_01: "lit 0.1 = Finite (3602879701896397 / 2 ^ 55)"
  unfolding lit_def
  by (subst rnd_near [where l = "- 4" and m = 7205759403792794]) (simp_all add: ev)

lemma lit_02: "lit 0.2 = Finite (3602879701896397 / 2 ^ 54)"
  unfolding lit_def
  by (subst rnd_near [where l = "- 3" and m = 7205759403792794]) (simp_all add: ev)


lemma lit_05: "lit 0.5 = Finite (1 / 2)"
  unfolding lit_def
  by (subst rnd_near [where l = "- 1" and m = 4503599627370496]) (simp_all add: ev)

lemma lit_06: "lit 0.6 = Finite (5404319552844595 / 2 ^ 53)"
  unfolding lit_def
  by (subst rnd_near [where l = "- 1" and m = 5404319552844595]) (simp_all add: ev)


lemma lit_09: "lit 0.9 = Finite (8106479329266893 / 2 ^ 53)"
  unfolding lit_def
  by (subst rnd_near [where l = "- 1" and m = 8106479329266893]) (simp_all add: ev)

lemma dbl_a1: "is_double (1 - 8106479329266893 / 2 ^ 53)"
  by (rule is_doubleI [where l = "- 4" and m = 7205759403792792]) (simp_all add: ev)

lemma sub_a1: "rnd (1 - 8106479329266893 / 2 ^ 53) = Finite (900719925474099 / 2 ^ 53)"
  by (simp only: rnd_exact [OF dbl_a1]) simp

lemma dbl_a2: "is_double (900719925474099 / 2 ^ 53 - 3602879701896397 / 2 ^ 54)"
  by (rule is_doubleI [where l = "- 4" and m = 7205759403792796]) (simp_all add: ev)

lemma sub_a2: "rnd (900719925474099 / 2 ^ 53 - 3602879701896397 / 2 ^ 54) = Finite (- (1801439850948199 / 2 ^ 54))"
  by (simp only: rnd_exact [OF dbl_a2]) simp

lemma dbl_a3: "is_double (- (1801439850948199 / 2 ^ 54) - 3602879701896397 / 2 ^ 55)"
  by (rule is_doubleI [where l = "- 3" and m = 7205759403792795]) (simp_all add: ev)

lemma sub_a3: "rnd (- (1801439850948199 / 2 ^ 54) - 3602879701896397 / 2 ^ 55) = Finite (- (7205759403792795 / 2 ^ 55))"
  by (simp only: rnd_exact [OF dbl_a3]) simp













lemma dbl_d1: "is_double (1 - 5404319552844595 / 2 ^ 53)"
  by (rule is_doubleI [where l = "- 2" and m = 7205759403792794]) (simp_all add: ev)

lemma sub_d1: "rnd (1 - 5404319552844595 / 2 ^ 53) = Finite (3602879701896397 / 2 ^ 53)"
  by (simp only: rnd_exact [OF dbl_d1]) simp

lemma dbl_d2: "is_double (3602879701896397 / 2 ^ 53 - 1 / 2)"
  by (rule is_doubleI [where l = "- 4" and m = 7205759403792792]) (simp_all add: ev)

lemma sub_d2: "rnd (3602879701896397 / 2 ^ 53 - 1 / 2) = Finite (- (900719925474099 / 2 ^ 53))"
  by (simp only: rnd_exact [OF dbl_d2]) simp

lemma dbl_d3: "is_double (- (900719925474099 / 2 ^ 53) - 0)"
  by (rule is_doubleI [where l = "- 4" and m = 7205759403792792]) (simp_all add: ev)

lemma sub_d3: "rnd (- (900719925474099 / 2 ^ 53) - 0) = Finite (- (900719925474099 / 2 ^ 53))"
  by (simp only: rnd_exact [OF dbl_d3]) simp




subsection \<open>Composition ratio calculator\<close>




text \<open>
  C1, as the specification states it, asks for \<open>InvalidCompositionError\<close> when the three
  inputs sum to more than 1. The script has no such check. With the support slider of
  the page at 0.9 and the other two left at their values 0.2 and 0.1, the three floats
  sum to more than 1 and \<open>derive\<close> returns the refusal \<open>- (7205759403792795 / 2 ^ 55)\<close>
  (printed -0.20000000000000004).
\<close>

theorem derive_no_error_counterexample:
  "lit 0.9 = Finite (8106479329266893 / 2 ^ 53)
   \<and> lit 0.2 = Finite (3602879701896397 / 2 ^ 54)
   \<and> lit 0.1 = Finite (3602879701896397 / 2 ^ 55)
   \<and> (1 :: rat) < 8106479329266893 / 2 ^ 53 + 3602879701896397 / 2 ^ 54
                   + 3602879701896397 / 2 ^ 55
   \<and> derive (lit 0.9) (lit 0.2) (lit 0.1) \<noteq> Inl InvalidCompositionError
   \<and> derive (lit 0.9) (lit 0.2) (lit 0.1) = Inr (Finite (- (7205759403792795 / 2 ^ 55)))"
proof -
  have d: "derive (lit 0.9) (lit 0.2) (lit 0.1) = Inr (Finite (- (7205759403792795 / 2 ^ 55)))"
    by (simp only: derive_def lit_09 lit_02 lit_01 fsub.simps sub_a1 sub_a2 sub_a3)
  have s: "(1 :: rat) < 8106479329266893 / 2 ^ 53 + 3602879701896397 / 2 ^ 54
                   + 3602879701896397 / 2 ^ 55"
    by simp
  from d s lit_09 lit_02 lit_01 show ?thesis by simp
qed

text \<open>
  C1, amended. \<open>derive\<close> raises no error: for every three floats, also when they sum to
  more than 1 or one of them lies outside \<open>[0, 1]\<close>, it returns the float that the
  three subtractions yield, negative or not.
\<close>

theorem derive_never_raises:
  "derive support opposition abstention \<noteq> Inl e
   \<and> (\<exists>r. derive support opposition abstention = Inr r
         \<and> r = fsub (fsub (fsub (Finite 1) support) opposition) abstention)"
  by (simp add: derive_def)

theorem derive_never_raises_witness:
  "derive (lit 0.6) (lit 0.5) (lit 0.0) \<noteq> Inl InvalidCompositionError
   \<and> derive (lit 0.6) (lit 0.5) (lit 0.0) = Inr (Finite (- (900719925474099 / 2 ^ 53)))"
proof -
  have "fsub (fsub (fsub (Finite 1) (lit 0.6)) (lit 0.5)) (lit 0.0) =
        Finite (- (900719925474099 / 2 ^ 53))"
    by (simp only: lit_06 lit_05 lit_00 fsub.simps sub_d1 sub_d2 sub_d3)
  with derive_never_raises [of "lit 0.6" "lit 0.5" "lit 0.0" InvalidCompositionError]
  show ?thesis by auto
qed

text \<open>
  C10. The claim has the sliders hold opposition and abstention under their caps, so
  that refusal and hesitation lie in \<open>[0, 1]\<close>. The script passes the caps as upper
  bounds but passes 0.2 and 0.1 as the sliders' values whatever the caps are. With the
  support slider at 0.9 and the others left alone, the cap of the opposition is
  \<open>900719925474099 / 2 ^ 53\<close> (0.09999999999999998) and the opposition is 0.2; the
  refusal is \<open>- (7205759403792795 / 2 ^ 55)\<close> (-0.20000000000000004), and on the
  two-dimensional tab the hesitation is \<open>- (1801439850948199 / 2 ^ 54)\<close>
  (-0.10000000000000003).
\<close>

theorem slider_values_exceed_caps:
  "oppose_pfs_max (lit 0.9) = Finite (900719925474099 / 2 ^ 53)
   \<and> st_slider (Finite 0) (oppose_pfs_max (lit 0.9)) (lit 0.2) None =
       Finite (3602879701896397 / 2 ^ 54)
   \<and> (900719925474099 / 2 ^ 53 :: rat) < 3602879701896397 / 2 ^ 54
   \<and> pfs_tab (Some (lit 0.9)) None None = Inr (Finite (- (7205759403792795 / 2 ^ 55)))
   \<and> ifs_tab (Some (lit 0.9)) None = Finite (- (1801439850948199 / 2 ^ 54))"
proof -
  have m: "oppose_pfs_max (lit 0.9) = Finite (900719925474099 / 2 ^ 53)"
    by (simp only: oppose_pfs_max_def lit_09 fsub.simps sub_a1)
  have v: "st_slider (Finite 0) (oppose_pfs_max (lit 0.9)) (lit 0.2) None =
       Finite (3602879701896397 / 2 ^ 54)"
    by (simp only: st_slider_def option.case lit_02)
  have c: "(900719925474099 / 2 ^ 53 :: rat) < 3602879701896397 / 2 ^ 54"
    by simp
  have p: "pfs_tab (Some (lit 0.9)) None None = Inr (Finite (- (7205759403792795 / 2 ^ 55)))"
    by (simp only: pfs_tab_def st_slider_def option.case Let_def derive_def
        lit_09 lit_02 lit_01 fsub.simps sub_a1 sub_a2 sub_a3)
  have i: "ifs_tab (Some (lit 0.9)) None = Finite (- (1801439850948199 / 2 ^ 54))"
    by (simp only: ifs_tab_def st_slider_def option.case Let_def hesitation_def
        lit_09 lit_02 fsub.simps sub_a1 sub_a2)
  from m v c p i show ?thesis by (intro conjI)
qed

subsection \<open>No hidden state\<close>

lemma run_cut_loop_mst_dot:
  "run_cut_loop es t s = s\<lparr>mst_dot := cut_loop es t (mst_dot s)\<rparr>"
  by (induction es t s rule: run_cut_loop.induct) simp_all

lemma run_score_eq: "run_score x s = s\<lparr>membership := score x\<rparr>"
  by (simp add: run_score_def score_def)

lemma run_validate_eq:
  "run_validate sa sb sc mab mbc mac s = s\<lparr>violations := validate sa sb sc mab mbc mac\<rparr>"
  by (simp add: run_validate_def validate_def append_violation_def Let_def)

lemma run_partition_eq: "run_partition es t s = s\<lparr>mst_dot := cut_loop es t []\<rparr>"
  by (simp add: run_partition_def run_cut_loop_mst_dot)

text \<open>
  C9. Each of the four computations is deterministic and stateless. Whatever the
  variables of the script hold from an earlier run (\<open>s\<close>, \<open>s'\<close>), a run leaves in its
  result variable the value of the function at the inputs alone; so a second run on the
  same inputs, after the first or after any other run, yields the same output.
\<close>

theorem four_functions_stateless:
  "membership (run_score x s) = score x
   \<and> membership (run_score x (run_score x s)) = membership (run_score x s')
   \<and> violations (run_validate sa sb sc mab mbc mac s) = validate sa sb sc mab mbc mac
   \<and> violations (run_validate sa sb sc mab mbc mac (run_validate sa sb sc mab mbc mac s)) =
       violations (run_validate sa sb sc mab mbc mac s')
   \<and> (graph_edges (mst_dot (run_partition es t s)),
        filter (\<lambda>e. e \<notin> set (graph_edges (mst_dot (run_partition es t s)))) es,
        graph_nodes (mst_dot (run_partition es t s))) = partition_edges es t
   \<and> mst_dot (run_partition es t (run_partition es t s)) = mst_dot (run_partition es t s')
   \<and> Inr (refusal (run_derive su op ab s)) = derive su op ab
   \<and> refusal (run_derive su op ab (run_derive su op ab s)) = refusal (run_derive su op ab s')"
  by (simp add: run_score_eq run_validate_eq run_partition_eq run_derive_def derive_def
      partition_edges_def Let_def)

end
